theory Spec2Isabelle
  imports Complex_Main
begin

section \<open>Python values\<close>

text \<open>
  A Python \<open>str\<close> is represented by the bytes of its UTF-8 encoding (\<open>string\<close> is a
  \<open>char list\<close> of 8-bit characters). The service only tests a string for emptiness and
  splices it into f-strings; both commute with the encoding, so the representation is exact
  for every operation of \<open>main.py\<close>. A non-ASCII literal of the source is written as
  its bytes.
\<close>

datatype pyval = PyNone | PyStr string

text \<open>A dict literal, in the order of its keys in the source.\<close>

type_synonym pydict = "(string \<times> pyval) list"

definition nl :: string where
  "nl = [CHR 0x0A]"

text \<open>Truthiness of an \<open>Optional[str]\<close>: \<open>None\<close> and \<open>""\<close> are falsy.\<close>

fun truthy :: "string option \<Rightarrow> bool" where
  "truthy None = False"
| "truthy (Some s) = (s \<noteq> [])"

section \<open>Exceptions\<close>

text \<open>
  The exception classes that can reach the \<open>except\<close> clauses of
  \<open>ask_coffee_question\<close>: the classes of the \<open>openai\<close> client library and the
  built-in ones raised by indexing and attribute access. All of them derive from
  \<open>Exception\<close>; signals that derive from \<open>BaseException\<close> only (a keyboard interrupt,
  interpreter exit) are not failures of the provider call and are outside this model.
\<close>

datatype exc_class =
    Exception
  | LookupError
  | IndexError
  | TypeError
  | AttributeError
  | ValueError
  | OSError
  | OpenAIError
  | APIError
  | APIResponseValidationError
  | APIStatusError
  | APIConnectionError
  | APITimeoutError
  | BadRequestError
  | AuthenticationError
  | PermissionDeniedError
  | NotFoundError
  | ConflictError
  | UnprocessableEntityError
  | RateLimitError
  | InternalServerError

text \<open>The method resolution order of each class, from the class itself up to \<open>Exception\<close>.\<close>

fun mro :: "exc_class \<Rightarrow> exc_class list" where
  "mro Exception = [Exception]"
| "mro LookupError = [LookupError, Exception]"
| "mro IndexError = [IndexError, LookupError, Exception]"
| "mro TypeError = [TypeError, Exception]"
| "mro AttributeError = [AttributeError, Exception]"
| "mro ValueError = [ValueError, Exception]"
| "mro OSError = [OSError, Exception]"
| "mro OpenAIError = [OpenAIError, Exception]"
| "mro APIError = [APIError, OpenAIError, Exception]"
| "mro APIResponseValidationError =
     [APIResponseValidationError, APIError, OpenAIError, Exception]"
| "mro APIStatusError = [APIStatusError, APIError, OpenAIError, Exception]"
| "mro APIConnectionError = [APIConnectionError, APIError, OpenAIError, Exception]"
| "mro APITimeoutError =
     [APITimeoutError, APIConnectionError, APIError, OpenAIError, Exception]"
| "mro BadRequestError =
     [BadRequestError, APIStatusError, APIError, OpenAIError, Exception]"
| "mro AuthenticationError =
     [AuthenticationError, APIStatusError, APIError, OpenAIError, Exception]"
| "mro PermissionDeniedError =
     [PermissionDeniedError, APIStatusError, APIError, OpenAIError, Exception]"
| "mro NotFoundError =
     [NotFoundError, APIStatusError, APIError, OpenAIError, Exception]"
| "mro ConflictError =
     [ConflictError, APIStatusError, APIError, OpenAIError, Exception]"
| "mro UnprocessableEntityError =
     [UnprocessableEntityError, APIStatusError, APIError, OpenAIError, Exception]"
| "mro RateLimitError =
     [RateLimitError, APIStatusError, APIError, OpenAIError, Exception]"
| "mro InternalServerError =
     [InternalServerError, APIStatusError, APIError, OpenAIError, Exception]"

text \<open>A raised exception: its class and the text \<open>str(e)\<close> gives.\<close>

record py_exception =
  exc_type :: exc_class
  exc_str :: string

definition isinstance :: "py_exception \<Rightarrow> exc_class \<Rightarrow> bool" where
  "isinstance e c = (c \<in> set (mro (exc_type e)))"

text \<open>\<open>fastapi.HTTPException(status_code, detail)\<close>.\<close>

record HTTPException =
  status_code :: int
  detail :: string

section \<open>The world a handler runs in\<close>

datatype log_level = INFO | ERROR

text \<open>
  The keyword arguments of \<open>openai_client.chat.completions.create\<close>. The float literal
  \<open>0.7\<close> is kept as the decimal the source writes; no arithmetic is done on it.
\<close>

record completion_request =
  model :: string
  messages :: "pydict list"
  max_tokens :: int
  temperature :: real

text \<open>
  The part of a completion response that line 122 reads:
  \<open>response.choices[0].message.content\<close>. Each level may be \<open>None\<close>, the list may
  be empty, and \<open>content\<close> is an optional string.
\<close>

record chat_message =
  content :: "string option"

record choice =
  message :: "chat_message option"

record chat_completion =
  choices :: "choice list option"

text \<open>
  What one call of \<open>openai_client.chat.completions.create\<close> gives back to the service:
  a response or a raised exception. It stands for the client together with the completion
  provider and the credential behind it; how the client talks to the provider during the
  call is the subject of the section on the client below.
\<close>

type_synonym provider = "completion_request \<Rightarrow> py_exception + chat_completion"

text \<open>
  The observable effects: the lines given to the logger, and the calls of
  \<open>chat.completions.create\<close> with their arguments, both in order.
\<close>

record world =
  log_lines :: "(log_level \<times> string) list"
  provider_calls :: "completion_request list"

definition logger :: "log_level \<Rightarrow> string \<Rightarrow> world \<Rightarrow> world" where
  "logger lvl line w = w\<lparr>log_lines := log_lines w @ [(lvl, line)]\<rparr>"

section \<open>main.py\<close>

subsection \<open>GET /\<close>

definition root :: "world \<Rightarrow> pydict \<times> world" where
  "root w =
     ([(''message'', PyStr ''Welcome to Coffee AI Assistant!''),
       (''description'', PyStr ''Use POST /ask-coffee to ask questions about coffee''),
       (''example'', PyStr
          ''POST /ask-coffee with body: {'question': 'What is the best brewing method for coffee?'}'')],
      logger INFO ''Root endpoint called'' w)"

subsection \<open>ask_coffee_question\<close>

definition default_question :: string where
  "default_question = ''What are the top 5 coffee brewing methods and their characteristics?''"

text \<open>Lines 97-98: \<open>if not question: question = <default>\<close>.\<close>

fun effective_question :: "string option \<Rightarrow> string" where
  "effective_question None = default_question"
| "effective_question (Some s) = (if \<not> truthy (Some s) then default_question else s)"

text \<open>
  Lines 103-108: the f-string, with the line breaks and the eight spaces of indentation
  that the triple-quoted literal contains (the first line ends in a space).
\<close>

definition indent :: string where
  "indent = ''        ''"

definition coffee_prompt :: "string \<Rightarrow> string" where
  "coffee_prompt question =
     ''You are a coffee expert and barista with deep knowledge about coffee beans, brewing methods, equipment, and coffee culture. '' @ nl
     @ indent @ ''Please answer the following coffee question in a helpful, informative, and engaging way:'' @ nl
     @ indent @ nl
     @ indent @ ''Question: '' @ question @ nl
     @ indent @ nl
     @ indent @ ''Please provide a detailed answer that would be helpful to someone interested in coffee.''"

definition system_instruction :: string where
  "system_instruction = ''You are a knowledgeable coffee expert and barista.''"

text \<open>Lines 111-119: the arguments of the one call to the provider.\<close>

definition create_request :: "string \<Rightarrow> completion_request" where
  "create_request question =
     \<lparr>model = ''gpt-3.5-turbo'',
      messages =
        [[(''role'', PyStr ''system''), (''content'', PyStr system_instruction)],
         [(''role'', PyStr ''user''), (''content'', PyStr (coffee_prompt question))]],
      max_tokens = 500,
      temperature = 0.7\<rparr>"

text \<open>
  Line 122, \<open>response.choices[0].message.content\<close>, with the exception Python raises at
  each step that cannot be taken.
\<close>

definition extract_content :: "chat_completion \<Rightarrow> py_exception + string option" where
  "extract_content response =
     (case choices response of
        None \<Rightarrow>
          Inl \<lparr>exc_type = TypeError,
               exc_str = [CHR 0x27] @ ''NoneType'' @ [CHR 0x27] @ '' object is not subscriptable''\<rparr>
      | Some [] \<Rightarrow>
          Inl \<lparr>exc_type = IndexError, exc_str = ''list index out of range''\<rparr>
      | Some (c # _) \<Rightarrow>
          (case message c of
             None \<Rightarrow>
               Inl \<lparr>exc_type = AttributeError,
                    exc_str = [CHR 0x27] @ ''NoneType'' @ [CHR 0x27]
                      @ '' object has no attribute '' @ [CHR 0x27] @ ''content'' @ [CHR 0x27]\<rparr>
           | Some m \<Rightarrow> Inr (content m)))"

definition str_or_none :: "string option \<Rightarrow> pyval" where
  "str_or_none v = (case v of None \<Rightarrow> PyNone | Some s \<Rightarrow> PyStr s)"

text \<open>Lines 126-132: the dict returned on success.\<close>

definition coffee_expert_label :: string where
  "coffee_expert_label = [CHR 0xE2, CHR 0x98, CHR 0x95] @ '' AI Barista''"

definition envelope :: "string \<Rightarrow> string option \<Rightarrow> pydict" where
  "envelope question ai_response =
     [(''status'', PyStr ''success''),
      (''question'', PyStr question),
      (''ai_response'', str_or_none ai_response),
      (''model_used'', PyStr ''gpt-3.5-turbo''),
      (''coffee_expert'', PyStr coffee_expert_label)]"

text \<open>
  Lines 134-157: the \<open>except\<close> clauses, tried in the order of the source. The last one,
  \<open>except Exception\<close>, matches every exception of the model.
\<close>

definition auth_detail :: string where
  "auth_detail =
     ''OpenAI API key not configured or invalid. Please set OPENAI_API_KEY environment variable.''"

definition rate_limit_detail :: string where
  "rate_limit_detail = ''OpenAI API rate limit exceeded. Please try again later.''"

definition except_clauses :: "py_exception \<Rightarrow> world \<Rightarrow> HTTPException \<times> world" where
  "except_clauses e w =
     (if isinstance e AuthenticationError then
        (\<lparr>status_code = 401, detail = auth_detail\<rparr>,
         logger ERROR ''OpenAI API key authentication failed'' w)
      else if isinstance e RateLimitError then
        (\<lparr>status_code = 429, detail = rate_limit_detail\<rparr>,
         logger ERROR ''OpenAI API rate limit exceeded'' w)
      else if isinstance e APIError then
        (\<lparr>status_code = 500, detail = ''OpenAI API error: '' @ exc_str e\<rparr>,
         logger ERROR (''OpenAI API error: '' @ exc_str e) w)
      else
        (\<lparr>status_code = 500, detail = ''Failed to get coffee advice: '' @ exc_str e\<rparr>,
         logger ERROR (''Unexpected error calling OpenAI: '' @ exc_str e) w))"

text \<open>
  Lines 95-157. \<open>Inl\<close> is the raised \<open>HTTPException\<close>, \<open>Inr\<close> the returned dict. The
  call of \<open>create\<close> is recorded in \<open>provider_calls\<close> when it is made, before its outcome
  is known.
\<close>

definition ask_coffee_question ::
  "provider \<Rightarrow> string option \<Rightarrow> world \<Rightarrow> (HTTPException + pydict) \<times> world" where
  "ask_coffee_question openai_client question0 w =
     (let question = effective_question question0;
          w1 = logger INFO (''Asking OpenAI about coffee: '' @ question) w;
          request = create_request question;
          w2 = w1\<lparr>provider_calls := provider_calls w1 @ [request]\<rparr>
      in case openai_client request of
           Inl e \<Rightarrow> (case except_clauses e w2 of (h, w3) \<Rightarrow> (Inl h, w3))
         | Inr response \<Rightarrow>
             (case extract_content response of
                Inl e \<Rightarrow> (case except_clauses e w2 of (h, w3) \<Rightarrow> (Inl h, w3))
              | Inr ai_response \<Rightarrow>
                  (Inr (envelope question ai_response),
                   logger INFO ''Successfully received response from OpenAI'' w2)))"

subsection \<open>POST /ask-coffee\<close>

text \<open>The pydantic body model: \<open>question: Optional[str] = None\<close>.\<close>

record CoffeeQuestion =
  question :: "string option"

text \<open>Lines 201-207.\<close>

definition ask_coffee_endpoint ::
  "provider \<Rightarrow> CoffeeQuestion \<Rightarrow> world \<Rightarrow> (HTTPException + pydict) \<times> world" where
  "ask_coffee_endpoint openai_client coffee_question w =
     (let w1 = logger INFO ''Ask coffee endpoint called'' w;
          q = (if truthy (question coffee_question) then question coffee_question else None)
      in ask_coffee_question openai_client q w1)"

subsection \<open>The routes\<close>

text \<open>
  The two routes the decorators declare, as FastAPI serves them: a returned dict is the
  JSON body of a 200 response, a raised \<open>HTTPException\<close> is a response with its status
  code and the body \<open>{"detail": detail}\<close>.
\<close>

datatype http_request = GET_root | POST_ask_coffee CoffeeQuestion

record http_response =
  status :: int
  body :: pydict

definition respond :: "HTTPException + pydict \<Rightarrow> http_response" where
  "respond r =
     (case r of
        Inr d \<Rightarrow> \<lparr>status = 200, body = d\<rparr>
      | Inl h \<Rightarrow> \<lparr>status = status_code h, body = [(''detail'', PyStr (detail h))]\<rparr>)"

definition app :: "provider \<Rightarrow> http_request \<Rightarrow> world \<Rightarrow> http_response \<times> world" where
  "app openai_client req w =
     (case req of
        GET_root \<Rightarrow> (case root w of (d, w') \<Rightarrow> (respond (Inr d), w'))
      | POST_ask_coffee cq \<Rightarrow>
          (case ask_coffee_endpoint openai_client cq w of (r, w') \<Rightarrow> (respond r, w')))"

section \<open>The client\<close>

text \<open>
  Lines 48-50 build the client with \<open>openai.OpenAI(api_key=...)\<close> and no other argument,
  so it keeps the library's \<open>DEFAULT_MAX_RETRIES\<close>. The library is not part of this
  repository; what follows is its request loop (\<open>SyncAPIClient.request\<close> with
  \<open>_should_retry\<close> and \<open>_make_status_error\<close>), reduced to what decides how often one
  call of \<open>create\<close> sends its request and what the call returns or raises.
\<close>

text \<open>
  The provider's answer to one sending of a request: a completion, an HTTP error status
  (with the \<open>x-should-retry\<close> header if present and the message the client makes of the
  body), no connection, or a timeout.
\<close>

datatype http_outcome =
    Completed chat_completion
  | StatusError int "bool option" string
  | ConnectFailed
  | TimedOut

text \<open>The provider: its answer to the \<open>k\<close>-th sending of a request within one call.\<close>

type_synonym completion_api = "completion_request \<Rightarrow> nat \<Rightarrow> http_outcome"

definition DEFAULT_MAX_RETRIES :: nat where
  "DEFAULT_MAX_RETRIES = 2"

record OpenAI =
  max_retries :: nat

definition should_retry :: "int \<Rightarrow> bool option \<Rightarrow> bool" where
  "should_retry code x_should_retry =
     (case x_should_retry of
        Some b \<Rightarrow> b
      | None \<Rightarrow> code = 408 \<or> code = 409 \<or> code = 429 \<or> 500 \<le> code)"

definition make_status_error :: "int \<Rightarrow> string \<Rightarrow> py_exception" where
  "make_status_error code err_msg =
     \<lparr>exc_type =
        (if code = 400 then BadRequestError
         else if code = 401 then AuthenticationError
         else if code = 403 then PermissionDeniedError
         else if code = 404 then NotFoundError
         else if code = 409 then ConflictError
         else if code = 422 then UnprocessableEntityError
         else if code = 429 then RateLimitError
         else if 500 \<le> code then InternalServerError
         else APIStatusError),
      exc_str = err_msg\<rparr>"

text \<open>
  The loop \<open>for retries_taken in range(max_retries + 1)\<close>: the request is sent; a
  completion ends the loop; a failure is retried while retries remain (a status error only
  if \<open>should_retry\<close>), and is raised otherwise. The second component is the number of
  times the request has been sent when the call ends.
\<close>

fun request :: "completion_api \<Rightarrow> completion_request \<Rightarrow> nat \<Rightarrow> nat \<Rightarrow>
    (py_exception + chat_completion) \<times> nat" where
  "request api r retries_taken 0 =
     (case api r retries_taken of
        Completed response \<Rightarrow> (Inr response, Suc retries_taken)
      | StatusError code h err_msg \<Rightarrow> (Inl (make_status_error code err_msg), Suc retries_taken)
      | ConnectFailed \<Rightarrow>
          (Inl \<lparr>exc_type = APIConnectionError, exc_str = ''Connection error.''\<rparr>,
           Suc retries_taken)
      | TimedOut \<Rightarrow>
          (Inl \<lparr>exc_type = APITimeoutError, exc_str = ''Request timed out.''\<rparr>,
           Suc retries_taken))"
| "request api r retries_taken (Suc remaining_retries) =
     (case api r retries_taken of
        Completed response \<Rightarrow> (Inr response, Suc retries_taken)
      | StatusError code h err_msg \<Rightarrow>
          (if should_retry code h then request api r (Suc retries_taken) remaining_retries
           else (Inl (make_status_error code err_msg), Suc retries_taken))
      | ConnectFailed \<Rightarrow> request api r (Suc retries_taken) remaining_retries
      | TimedOut \<Rightarrow> request api r (Suc retries_taken) remaining_retries)"




text \<open>
  Lines 48-50. With this client and a provider \<open>api\<close>, the parameter \<open>openai_client\<close> of
  the handlers above is \<open>chat_completions_create openai_client api\<close>.
\<close>

definition openai_client :: OpenAI where
  "openai_client = \<lparr>max_retries = DEFAULT_MAX_RETRIES\<rparr>"


section \<open>Properties\<close>

subsection \<open>Auxiliary facts\<close>

lemma isinstance_Exception: "isinstance e Exception"
  by (cases "exc_type e") (simp_all add: isinstance_def)

lemma rate_limit_not_auth: "isinstance e RateLimitError \<Longrightarrow> \<not> isinstance e AuthenticationError"
  by (cases "exc_type e") (simp_all add: isinstance_def)

lemma auth_or_rate_is_api:
  "isinstance e AuthenticationError \<or> isinstance e RateLimitError \<Longrightarrow> isinstance e APIError"
  by (cases "exc_type e") (simp_all add: isinstance_def)

lemma provider_calls_logger: "provider_calls (logger lvl line w) = provider_calls w"
  by (simp add: logger_def)

lemma provider_calls_except_clauses:
  "provider_calls (snd (except_clauses e w)) = provider_calls w"
  by (simp add: except_clauses_def provider_calls_logger)

lemma fst_except_clauses:
  "fst (except_clauses e w) =
     (if isinstance e AuthenticationError then \<lparr>status_code = 401, detail = auth_detail\<rparr>
      else if isinstance e RateLimitError then \<lparr>status_code = 429, detail = rate_limit_detail\<rparr>
      else if isinstance e APIError then
        \<lparr>status_code = 500, detail = ''OpenAI API error: '' @ exc_str e\<rparr>
      else \<lparr>status_code = 500, detail = ''Failed to get coffee advice: '' @ exc_str e\<rparr>)"
  by (simp add: except_clauses_def)

lemma ask_coffee_question_calls:
  "provider_calls (snd (ask_coffee_question p q w)) =
     provider_calls w @ [create_request (effective_question q)]"
  by (simp add: ask_coffee_question_def Let_def provider_calls_logger
      provider_calls_except_clauses split_beta split: sum.splits)

lemma ask_coffee_question_raises:
  assumes "p (create_request (effective_question q)) = Inl e"
  shows "fst (ask_coffee_question p q w) = Inl (fst (except_clauses e w'))"
  using assms by (simp add: ask_coffee_question_def Let_def split_beta fst_except_clauses)

lemma ask_coffee_question_malformed:
  assumes "p (create_request (effective_question q)) = Inr response"
    and "extract_content response = Inl e"
  shows "fst (ask_coffee_question p q w) = Inl (fst (except_clauses e w'))"
  using assms by (simp add: ask_coffee_question_def Let_def split_beta fst_except_clauses)

lemma ask_coffee_question_returns:
  assumes "p (create_request (effective_question q)) = Inr response"
    and "extract_content response = Inr ai"
  shows "fst (ask_coffee_question p q w) = Inr (envelope (effective_question q) ai)"
  using assms by (simp add: ask_coffee_question_def Let_def)

lemma effective_question_endpoint:
  "effective_question (if truthy x then x else None) = effective_question x"
  by (cases x) simp_all

lemma ask_coffee_endpoint_eq:
  "ask_coffee_endpoint p cq w =
     ask_coffee_question p (question cq) (logger INFO ''Ask coffee endpoint called'' w)"
proof -
  have "ask_coffee_question p (if truthy (question cq) then question cq else None) w' =
        ask_coffee_question p (question cq) w'" for w'
    unfolding ask_coffee_question_def effective_question_endpoint ..
  then show ?thesis
    by (simp add: ask_coffee_endpoint_def Let_def)
qed

lemma app_post:
  "app p (POST_ask_coffee cq) w =
     (respond (fst (ask_coffee_question p (question cq)
                 (logger INFO ''Ask coffee endpoint called'' w))),
      snd (ask_coffee_question p (question cq)
             (logger INFO ''Ask coffee endpoint called'' w)))"
  by (simp add: app_def ask_coffee_endpoint_eq split_beta)

lemma extract_content_raises:
  "extract_content response = Inl e \<Longrightarrow>
     exc_type e = TypeError \<or> exc_type e = IndexError \<or> exc_type e = AttributeError"
  by (auto simp: extract_content_def split: option.splits list.splits)


lemma status_code_except_clauses:
  "status_code (fst (except_clauses e w)) = 401 \<or>
   status_code (fst (except_clauses e w)) = 429 \<or>
   status_code (fst (except_clauses e w)) = 500"
  by (simp add: fst_except_clauses)

lemma ask_coffee_question_outcome:
  "(\<exists>ai. fst (ask_coffee_question p q w) = Inr (envelope (effective_question q) ai)) \<or>
   (\<exists>e. fst (ask_coffee_question p q w) = Inl (fst (except_clauses e w)))"
proof (cases "p (create_request (effective_question q))")
  case (Inl e)
  then show ?thesis using ask_coffee_question_raises by blast
next
  case (Inr response)
  show ?thesis
  proof (cases "extract_content response")
    case (Inl e)
    with Inr show ?thesis using ask_coffee_question_malformed by blast
  next
    case (Inr ai)
    with \<open>p (create_request (effective_question q)) = Inr response\<close>
    show ?thesis using ask_coffee_question_returns by blast
  qed
qed

lemma app_post_200:
  assumes "status (fst (app p (POST_ask_coffee cq) w)) = 200"
  shows "\<exists>ai. body (fst (app p (POST_ask_coffee cq) w)) =
           envelope (effective_question (question cq)) ai"
proof -
  let ?w = "logger INFO ''Ask coffee endpoint called'' w"
  from ask_coffee_question_outcome [of p "question cq" ?w]
  show ?thesis
  proof
    assume "\<exists>ai. fst (ask_coffee_question p (question cq) ?w) =
              Inr (envelope (effective_question (question cq)) ai)"
    then show ?thesis by (auto simp: app_post respond_def)
  next
    assume "\<exists>e. fst (ask_coffee_question p (question cq) ?w) = Inl (fst (except_clauses e ?w))"
    then obtain e where
      "fst (ask_coffee_question p (question cq) ?w) = Inl (fst (except_clauses e ?w))" ..
    with assms status_code_except_clauses [of e ?w] show ?thesis
      by (simp add: app_post respond_def)
  qed
qed

lemma envelope_question: "map_of (envelope q ai) ''question'' = Some (PyStr q)"
  by (simp add: envelope_def)





subsection \<open>The claims\<close>

text \<open>
  Claim C1. When the provider call of a \<open>POST /ask-coffee\<close> request raises \<open>e\<close>: an
  authentication error gives status 401, a rate-limit error gives 429, any other
  \<open>APIError\<close> gives 500 with \<open>str(e)\<close> after \<open>"OpenAI API error: "\<close> in the detail, and
  any other exception gives 500 with \<open>str(e)\<close> after \<open>"Failed to get coffee advice: "\<close>.
  No other status code occurs.
\<close>

theorem provider_failure_status_mapping:
  assumes "p (create_request (effective_question (question cq))) = Inl e"
  shows "let r = fst (app p (POST_ask_coffee cq) w) in
     (isinstance e AuthenticationError \<longrightarrow> status r = 401) \<and>
     (isinstance e RateLimitError \<longrightarrow> status r = 429) \<and>
     (isinstance e APIError \<and> \<not> isinstance e AuthenticationError \<and> \<not> isinstance e RateLimitError
        \<longrightarrow> r = \<lparr>status = 500,
                  body = [(''detail'', PyStr (''OpenAI API error: '' @ exc_str e))]\<rparr>) \<and>
     (\<not> isinstance e APIError
        \<longrightarrow> r = \<lparr>status = 500,
                  body = [(''detail'', PyStr (''Failed to get coffee advice: '' @ exc_str e))]\<rparr>) \<and>
     (status r = 401 \<or> status r = 429 \<or> status r = 500)"
proof -
  let ?w = "logger INFO ''Ask coffee endpoint called'' w"
  have r: "fst (app p (POST_ask_coffee cq) w) = respond (Inl (fst (except_clauses e ?w)))"
    using ask_coffee_question_raises [of p "question cq" e ?w ?w] assms
    by (simp add: app_post)
  have auth: "\<not> isinstance e APIError \<Longrightarrow> \<not> isinstance e AuthenticationError"
    and rate: "\<not> isinstance e APIError \<Longrightarrow> \<not> isinstance e RateLimitError"
    using auth_or_rate_is_api by blast+
  show ?thesis
    unfolding Let_def r
    using rate_limit_not_auth [of e] auth rate
    by (auto simp: respond_def fst_except_clauses)
qed

theorem provider_failure_status_mapping_witness:
  "status (fst (app (\<lambda>_. Inl \<lparr>exc_type = AuthenticationError, exc_str = ''Incorrect API key provided''\<rparr>)
       (POST_ask_coffee \<lparr>question = None\<rparr>) \<lparr>log_lines = [], provider_calls = []\<rparr>)) = 401 \<and>
   status (fst (app (\<lambda>_. Inl \<lparr>exc_type = RateLimitError, exc_str = ''Rate limit reached''\<rparr>)
       (POST_ask_coffee \<lparr>question = Some ''What is a flat white?''\<rparr>)
       \<lparr>log_lines = [], provider_calls = []\<rparr>)) = 429 \<and>
   fst (app (\<lambda>_. Inl \<lparr>exc_type = InternalServerError, exc_str = ''The server had an error''\<rparr>)
       (POST_ask_coffee \<lparr>question = None\<rparr>) \<lparr>log_lines = [], provider_calls = []\<rparr>)
     = \<lparr>status = 500,
        body = [(''detail'', PyStr ''OpenAI API error: The server had an error'')]\<rparr> \<and>
   fst (app (\<lambda>_. Inl \<lparr>exc_type = OSError, exc_str = ''Network is unreachable''\<rparr>)
       (POST_ask_coffee \<lparr>question = None\<rparr>) \<lparr>log_lines = [], provider_calls = []\<rparr>)
     = \<lparr>status = 500,
        body = [(''detail'', PyStr ''Failed to get coffee advice: Network is unreachable'')]\<rparr>"
proof -
  let ?w = "\<lparr>log_lines = [], provider_calls = []\<rparr>"
  have a: "status (fst (app (\<lambda>_. Inl \<lparr>exc_type = AuthenticationError, exc_str = ''Incorrect API key provided''\<rparr>)
       (POST_ask_coffee \<lparr>question = None\<rparr>) ?w)) = 401"
    using provider_failure_status_mapping
      [of "\<lambda>_. Inl \<lparr>exc_type = AuthenticationError, exc_str = ''Incorrect API key provided''\<rparr>"
          "\<lparr>question = None\<rparr>"
          "\<lparr>exc_type = AuthenticationError, exc_str = ''Incorrect API key provided''\<rparr>" ?w]
    by (simp add: isinstance_def Let_def)
  have b: "status (fst (app (\<lambda>_. Inl \<lparr>exc_type = RateLimitError, exc_str = ''Rate limit reached''\<rparr>)
       (POST_ask_coffee \<lparr>question = Some ''What is a flat white?''\<rparr>) ?w)) = 429"
    using provider_failure_status_mapping
      [of "\<lambda>_. Inl \<lparr>exc_type = RateLimitError, exc_str = ''Rate limit reached''\<rparr>"
          "\<lparr>question = Some ''What is a flat white?''\<rparr>"
          "\<lparr>exc_type = RateLimitError, exc_str = ''Rate limit reached''\<rparr>" ?w]
    by (simp add: isinstance_def Let_def)
  have c: "fst (app (\<lambda>_. Inl \<lparr>exc_type = InternalServerError, exc_str = ''The server had an error''\<rparr>)
       (POST_ask_coffee \<lparr>question = None\<rparr>) ?w)
     = \<lparr>status = 500, body = [(''detail'', PyStr ''OpenAI API error: The server had an error'')]\<rparr>"
    using provider_failure_status_mapping
      [of "\<lambda>_. Inl \<lparr>exc_type = InternalServerError, exc_str = ''The server had an error''\<rparr>"
          "\<lparr>question = None\<rparr>"
          "\<lparr>exc_type = InternalServerError, exc_str = ''The server had an error''\<rparr>" ?w]
    by (simp add: isinstance_def Let_def)
  have d: "fst (app (\<lambda>_. Inl \<lparr>exc_type = OSError, exc_str = ''Network is unreachable''\<rparr>)
       (POST_ask_coffee \<lparr>question = None\<rparr>) ?w)
     = \<lparr>status = 500,
        body = [(''detail'', PyStr ''Failed to get coffee advice: Network is unreachable'')]\<rparr>"
    using provider_failure_status_mapping
      [of "\<lambda>_. Inl \<lparr>exc_type = OSError, exc_str = ''Network is unreachable''\<rparr>"
          "\<lparr>question = None\<rparr>"
          "\<lparr>exc_type = OSError, exc_str = ''Network is unreachable''\<rparr>" ?w]
    by (simp add: isinstance_def Let_def)
  from a b c d show ?thesis by blast
qed

text \<open>
  Claim C2. When the \<open>question\<close> field of a \<open>POST /ask-coffee\<close> body is absent or the
  empty string, the one request sent to the provider is built from the default question
  \<open>"What are the top 5 coffee brewing methods and their characteristics?"\<close>, and every
  200 response carries that string in its \<open>question\<close> field.
\<close>

theorem absent_or_empty_question_uses_default:
  assumes "question cq = None \<or> question cq = Some ''''"
  shows "let r = app p (POST_ask_coffee cq) w in
     provider_calls (snd r) = provider_calls w @
       [create_request ''What are the top 5 coffee brewing methods and their characteristics?''] \<and>
     (status (fst r) = 200 \<longrightarrow>
        map_of (body (fst r)) ''question'' =
          Some (PyStr ''What are the top 5 coffee brewing methods and their characteristics?''))"
proof -
  from assms have q: "effective_question (question cq) =
      ''What are the top 5 coffee brewing methods and their characteristics?''"
    by (auto simp: default_question_def)
  have calls: "provider_calls (snd (app p (POST_ask_coffee cq) w)) = provider_calls w @
      [create_request ''What are the top 5 coffee brewing methods and their characteristics?'']"
    unfolding app_post snd_conv ask_coffee_question_calls q
    by (simp add: provider_calls_logger)
  have "map_of (body (fst (app p (POST_ask_coffee cq) w))) ''question'' =
      Some (PyStr ''What are the top 5 coffee brewing methods and their characteristics?'')"
    if "status (fst (app p (POST_ask_coffee cq) w)) = 200"
    using app_post_200 [OF that] q envelope_question by auto
  with calls show ?thesis by (simp add: Let_def)
qed

theorem absent_or_empty_question_uses_default_witness:
  "(let r = app (\<lambda>_. Inr \<lparr>choices = Some [\<lparr>message = Some \<lparr>content = Some ''Pour-over, espresso''\<rparr>\<rparr>]\<rparr>)
             (POST_ask_coffee \<lparr>question = Some ''''\<rparr>) \<lparr>log_lines = [], provider_calls = []\<rparr>
    in status (fst r) = 200 \<and>
       provider_calls (snd r) =
         [create_request ''What are the top 5 coffee brewing methods and their characteristics?''] \<and>
       map_of (body (fst r)) ''question'' =
         Some (PyStr ''What are the top 5 coffee brewing methods and their characteristics?'')) \<and>
   (let r = app (\<lambda>_. Inr \<lparr>choices = Some [\<lparr>message = Some \<lparr>content = Some ''Pour-over, espresso''\<rparr>\<rparr>]\<rparr>)
             (POST_ask_coffee \<lparr>question = None\<rparr>) \<lparr>log_lines = [], provider_calls = []\<rparr>
    in status (fst r) = 200 \<and>
       map_of (body (fst r)) ''question'' =
         Some (PyStr ''What are the top 5 coffee brewing methods and their characteristics?''))"
proof -
  let ?p = "\<lambda>_::completion_request. Inr \<lparr>choices = Some [\<lparr>message = Some \<lparr>content = Some ''Pour-over, espresso''\<rparr>\<rparr>]\<rparr>
              :: py_exception + chat_completion"
  let ?w = "\<lparr>log_lines = [], provider_calls = []\<rparr>"
  have ok: "status (fst (app ?p (POST_ask_coffee cq) ?w)) = 200" for cq
    by (simp add: app_def ask_coffee_endpoint_def ask_coffee_question_def extract_content_def
        respond_def Let_def)
  show ?thesis
    using absent_or_empty_question_uses_default [of "\<lparr>question = Some ''''\<rparr>" ?p ?w]
      absent_or_empty_question_uses_default [of "\<lparr>question = None\<rparr>" ?p ?w]
      ok [of "\<lparr>question = Some ''''\<rparr>"] ok [of "\<lparr>question = None\<rparr>"]
    by (simp add: Let_def)
qed

text \<open>
  Claim C3. When the \<open>question\<close> field is a non-empty string \<open>q\<close>, the request sent to
  the provider is built from \<open>q\<close> itself and every 200 response carries exactly \<open>q\<close> in
  its \<open>question\<close> field.
\<close>

theorem nonempty_question_returned_verbatim:
  assumes "question cq = Some q" and "q \<noteq> ''''"
  shows "let r = app p (POST_ask_coffee cq) w in
     provider_calls (snd r) = provider_calls w @ [create_request q] \<and>
     (status (fst r) = 200 \<longrightarrow> map_of (body (fst r)) ''question'' = Some (PyStr q))"
proof -
  from assms have q: "effective_question (question cq) = q"
    by simp
  have calls: "provider_calls (snd (app p (POST_ask_coffee cq) w)) =
      provider_calls w @ [create_request q]"
    unfolding app_post snd_conv ask_coffee_question_calls q
    by (simp add: provider_calls_logger)
  have "map_of (body (fst (app p (POST_ask_coffee cq) w))) ''question'' = Some (PyStr q)"
    if "status (fst (app p (POST_ask_coffee cq) w)) = 200"
    using app_post_200 [OF that] q envelope_question by auto
  with calls show ?thesis by (simp add: Let_def)
qed

theorem nonempty_question_returned_verbatim_witness:
  "let r = app (\<lambda>_. Inr \<lparr>choices = Some [\<lparr>message = Some \<lparr>content = Some ''Finely.''\<rparr>\<rparr>]\<rparr>)
             (POST_ask_coffee \<lparr>question = Some ''  How fine should I grind for espresso?  ''\<rparr>)
             \<lparr>log_lines = [], provider_calls = []\<rparr>
   in status (fst r) = 200 \<and>
      provider_calls (snd r) = [create_request ''  How fine should I grind for espresso?  ''] \<and>
      map_of (body (fst r)) ''question'' =
        Some (PyStr ''  How fine should I grind for espresso?  '')"
proof -
  let ?p = "\<lambda>_::completion_request. Inr \<lparr>choices = Some [\<lparr>message = Some \<lparr>content = Some ''Finely.''\<rparr>\<rparr>]\<rparr>
              :: py_exception + chat_completion"
  let ?w = "\<lparr>log_lines = [], provider_calls = []\<rparr>"
  let ?cq = "\<lparr>question = Some ''  How fine should I grind for espresso?  ''\<rparr>"
  have ok: "status (fst (app ?p (POST_ask_coffee ?cq) ?w)) = 200"
    by (simp add: app_def ask_coffee_endpoint_def ask_coffee_question_def extract_content_def
        respond_def Let_def)
  show ?thesis
    using nonempty_question_returned_verbatim
      [of ?cq "''  How fine should I grind for espresso?  ''" ?p ?w] ok
    by (simp add: Let_def)
qed

text \<open>
  Claim C4. When the provider answers a \<open>POST /ask-coffee\<close> request with a response whose
  first choice holds the text \<open>T\<close>, the HTTP response is 200 and its body is the dict of
  exactly five entries: \<open>status\<close> \<open>"success"\<close>, \<open>question\<close> the effective question,
  \<open>ai_response\<close> \<open>T\<close>, \<open>model_used\<close> \<open>"gpt-3.5-turbo"\<close> and \<open>coffee_expert\<close> the hot-beverage
  sign (bytes E2 98 95) followed by \<open>" AI Barista"\<close>.
\<close>

theorem success_envelope:
  assumes "p (create_request (effective_question (question cq))) = Inr response"
    and "choices response = Some (c # cs)"
    and "message c = Some m"
    and "content m = Some T"
  shows "fst (app p (POST_ask_coffee cq) w) =
     \<lparr>status = 200,
      body = [(''status'', PyStr ''success''),
              (''question'', PyStr (effective_question (question cq))),
              (''ai_response'', PyStr T),
              (''model_used'', PyStr ''gpt-3.5-turbo''),
              (''coffee_expert'', PyStr ([CHR 0xE2, CHR 0x98, CHR 0x95] @ '' AI Barista''))]\<rparr>"
proof -
  have "extract_content response = Inr (Some T)"
    using assms(2-4) by (simp add: extract_content_def)
  with ask_coffee_question_returns [of p "question cq" response "Some T"] assms(1)
  show ?thesis
    by (simp add: app_post respond_def envelope_def str_or_none_def coffee_expert_label_def)
qed

theorem success_envelope_witness:
  "fst (app (\<lambda>_. Inr \<lparr>choices = Some [\<lparr>message = Some \<lparr>content = Some ''T''\<rparr>\<rparr>]\<rparr>)
         (POST_ask_coffee \<lparr>question = Some ''What makes perfect espresso?''\<rparr>)
         \<lparr>log_lines = [], provider_calls = []\<rparr>) =
     \<lparr>status = 200,
      body = [(''status'', PyStr ''success''),
              (''question'', PyStr ''What makes perfect espresso?''),
              (''ai_response'', PyStr ''T''),
              (''model_used'', PyStr ''gpt-3.5-turbo''),
              (''coffee_expert'', PyStr ([CHR 0xE2, CHR 0x98, CHR 0x95] @ '' AI Barista''))]\<rparr>"
  using success_envelope
    [of "\<lambda>_. Inr \<lparr>choices = Some [\<lparr>message = Some \<lparr>content = Some ''T''\<rparr>\<rparr>]\<rparr>"
        "\<lparr>question = Some ''What makes perfect espresso?''\<rparr>"
        "\<lparr>choices = Some [\<lparr>message = Some \<lparr>content = Some ''T''\<rparr>\<rparr>]\<rparr>"
        "\<lparr>message = Some \<lparr>content = Some ''T''\<rparr>\<rparr>" "[]" "\<lparr>content = Some ''T''\<rparr>" "''T''"
        "\<lparr>log_lines = [], provider_calls = []\<rparr>"]
  by simp

text \<open>
  Claim C5. \<open>GET /\<close> answers 200 with the same three-entry object (keys \<open>message\<close>,
  \<open>description\<close>, \<open>example\<close>) whatever the provider and the world are, and sends nothing
  to the provider; its only effect is one log line.
\<close>

theorem root_is_static:
  "fst (app p GET_root w) =
     \<lparr>status = 200,
      body = [(''message'', PyStr ''Welcome to Coffee AI Assistant!''),
              (''description'', PyStr ''Use POST /ask-coffee to ask questions about coffee''),
              (''example'', PyStr
                 ''POST /ask-coffee with body: {'question': 'What is the best brewing method for coffee?'}'')]\<rparr> \<and>
   map fst (body (fst (app p GET_root w))) = [''message'', ''description'', ''example''] \<and>
   provider_calls (snd (app p GET_root w)) = provider_calls w \<and>
   log_lines (snd (app p GET_root w)) = log_lines w @ [(INFO, ''Root endpoint called'')]"
  by (simp add: app_def root_def respond_def logger_def)



text \<open>
  Claim C7. The prompt depends on the effective question only: two runs with equal
  effective questions, under any two providers and any two worlds, build the same user
  instruction and send the same request, whose payload is the system message followed by
  the user message.
\<close>

theorem prompt_determined_by_effective_question:
  assumes "effective_question q1 = effective_question q2"
  shows "\<exists>r. provider_calls (snd (ask_coffee_question p1 q1 w1)) = provider_calls w1 @ [r] \<and>
             provider_calls (snd (ask_coffee_question p2 q2 w2)) = provider_calls w2 @ [r] \<and>
             messages r =
               [[(''role'', PyStr ''system''),
                 (''content'', PyStr ''You are a knowledgeable coffee expert and barista.'')],
                [(''role'', PyStr ''user''),
                 (''content'', PyStr (coffee_prompt (effective_question q1)))]] \<and>
             coffee_prompt (effective_question q1) = coffee_prompt (effective_question q2)"
  using assms
  by (simp add: ask_coffee_question_calls create_request_def system_instruction_def)

theorem prompt_determined_by_effective_question_witness:
  "effective_question None = effective_question (Some []) \<and>
   (\<exists>r. provider_calls (snd (ask_coffee_question
            (\<lambda>_. Inl \<lparr>exc_type = RateLimitError, exc_str = ''Rate limit reached''\<rparr>) None
            \<lparr>log_lines = [], provider_calls = []\<rparr>)) = [r] \<and>
        provider_calls (snd (ask_coffee_question
            (\<lambda>_. Inr \<lparr>choices = Some []\<rparr>) (Some [])
            \<lparr>log_lines = [(INFO, ''Root endpoint called'')],
             provider_calls = [create_request ''Is decaf real coffee?'']\<rparr>)) =
          [create_request ''Is decaf real coffee?'', r])"
proof -
  have h: "effective_question None = effective_question (Some [])"
    by simp
  from prompt_determined_by_effective_question
    [OF h, of "\<lambda>_. Inl \<lparr>exc_type = RateLimitError, exc_str = ''Rate limit reached''\<rparr>"
       "\<lparr>log_lines = [], provider_calls = []\<rparr>"
       "\<lambda>_. Inr \<lparr>choices = Some []\<rparr>"
       "\<lparr>log_lines = [(INFO, ''Root endpoint called'')],
         provider_calls = [create_request ''Is decaf real coffee?'']\<rparr>"]
  obtain r where
    "provider_calls (snd (ask_coffee_question
        (\<lambda>_. Inl \<lparr>exc_type = RateLimitError, exc_str = ''Rate limit reached''\<rparr>) None
        \<lparr>log_lines = [], provider_calls = []\<rparr>)) = [r]"
    "provider_calls (snd (ask_coffee_question
        (\<lambda>_. Inr \<lparr>choices = Some []\<rparr>) (Some [])
        \<lparr>log_lines = [(INFO, ''Root endpoint called'')],
         provider_calls = [create_request ''Is decaf real coffee?'']\<rparr>)) =
      [create_request ''Is decaf real coffee?'', r]"
    by auto
  with h show ?thesis by blast
qed

text \<open>
  Claim C8. When the provider returns a response from which line 122 cannot read the text,
  \<open>ask_coffee_question\<close> raises the \<open>HTTPException\<close> with status 500 and detail
  \<open>"Failed to get coffee advice: "\<close> followed by the message of the exception the read
  raised (for an empty \<open>choices\<close> list, \<open>"list index out of range"\<close>). Hence every response
  of the provider leads either to the returned dict or to that \<open>HTTPException\<close>.
\<close>

theorem malformed_response_is_http_500:
  assumes "p (create_request (effective_question q)) = Inr response"
  shows
    "(\<forall>e. extract_content response = Inl e \<longrightarrow>
        fst (ask_coffee_question p q w) =
          Inl \<lparr>status_code = 500, detail = ''Failed to get coffee advice: '' @ exc_str e\<rparr>) \<and>
     (choices response = Some [] \<longrightarrow>
        fst (ask_coffee_question p q w) =
          Inl \<lparr>status_code = 500,
               detail = ''Failed to get coffee advice: list index out of range''\<rparr>) \<and>
     ((\<exists>ai. fst (ask_coffee_question p q w) = Inr (envelope (effective_question q) ai)) \<or>
      (\<exists>msg. fst (ask_coffee_question p q w) =
          Inl \<lparr>status_code = 500, detail = ''Failed to get coffee advice: '' @ msg\<rparr>))"
proof -
  have raised: "fst (ask_coffee_question p q w) =
      Inl \<lparr>status_code = 500, detail = ''Failed to get coffee advice: '' @ exc_str e\<rparr>"
    if e: "extract_content response = Inl e" for e
  proof -
    from extract_content_raises [OF e] have "\<not> isinstance e AuthenticationError"
      "\<not> isinstance e RateLimitError" "\<not> isinstance e APIError"
      by (auto simp: isinstance_def)
    with ask_coffee_question_malformed [of p q response e w w] assms e show ?thesis
      by (simp add: fst_except_clauses)
  qed
  have empty: "fst (ask_coffee_question p q w) =
      Inl \<lparr>status_code = 500, detail = ''Failed to get coffee advice: list index out of range''\<rparr>"
    if "choices response = Some []"
  proof -
    from that have "extract_content response =
        Inl \<lparr>exc_type = IndexError, exc_str = ''list index out of range''\<rparr>"
      by (simp add: extract_content_def)
    from raised [OF this] show ?thesis by simp
  qed
  have total: "(\<exists>ai. fst (ask_coffee_question p q w) = Inr (envelope (effective_question q) ai)) \<or>
      (\<exists>msg. fst (ask_coffee_question p q w) =
          Inl \<lparr>status_code = 500, detail = ''Failed to get coffee advice: '' @ msg\<rparr>)"
  proof (cases "extract_content response")
    case (Inl e)
    from raised [OF this] show ?thesis by blast
  next
    case (Inr ai)
    with ask_coffee_question_returns [of p q response ai w] assms show ?thesis by blast
  qed
  from raised empty total show ?thesis
    by blast
qed

theorem malformed_response_is_http_500_witness:
  "fst (ask_coffee_question (\<lambda>_. Inr \<lparr>choices = Some []\<rparr>) (Some ''What is a cortado?'')
         \<lparr>log_lines = [], provider_calls = []\<rparr>) =
     Inl \<lparr>status_code = 500,
          detail = ''Failed to get coffee advice: list index out of range''\<rparr> \<and>
   fst (ask_coffee_question (\<lambda>_. Inr \<lparr>choices = None\<rparr>) None
         \<lparr>log_lines = [], provider_calls = []\<rparr>) =
     Inl \<lparr>status_code = 500,
          detail = ''Failed to get coffee advice: '' @ [CHR 0x27] @ ''NoneType'' @ [CHR 0x27]
            @ '' object is not subscriptable''\<rparr>"
proof -
  have a: "fst (ask_coffee_question (\<lambda>_. Inr \<lparr>choices = Some []\<rparr>) (Some ''What is a cortado?'')
         \<lparr>log_lines = [], provider_calls = []\<rparr>) =
     Inl \<lparr>status_code = 500,
          detail = ''Failed to get coffee advice: list index out of range''\<rparr>"
    using malformed_response_is_http_500
      [of "\<lambda>_. Inr \<lparr>choices = Some []\<rparr>" "Some ''What is a cortado?''" "\<lparr>choices = Some []\<rparr>"
          "\<lparr>log_lines = [], provider_calls = []\<rparr>"]
    by simp
  have b: "fst (ask_coffee_question (\<lambda>_. Inr \<lparr>choices = None\<rparr>) None
         \<lparr>log_lines = [], provider_calls = []\<rparr>) =
     Inl \<lparr>status_code = 500,
          detail = ''Failed to get coffee advice: '' @ [CHR 0x27] @ ''NoneType'' @ [CHR 0x27]
            @ '' object is not subscriptable''\<rparr>"
    using malformed_response_is_http_500
      [of "\<lambda>_. Inr \<lparr>choices = None\<rparr>" None "\<lparr>choices = None\<rparr>"
          "\<lparr>log_lines = [], provider_calls = []\<rparr>"]
    by (simp add: extract_content_def)
  from a b show ?thesis ..
qed

text \<open>
  Claim C9. A question made of whitespace only is truthy, so it is not replaced by the
  default: it is the question the request is built from and the question a 200 response
  returns. The replacement happens exactly for \<open>None\<close> and for the empty string.
\<close>

theorem whitespace_question_kept:
  assumes "q \<noteq> []"
    and "set q \<subseteq> {CHR '' '', CHR 0x09, CHR 0x0A, CHR 0x0B, CHR 0x0C, CHR 0x0D}"
  shows "let r = app p (POST_ask_coffee \<lparr>question = Some q\<rparr>) w in
     truthy (Some q) \<and>
     effective_question (Some q) = q \<and>
     provider_calls (snd r) = provider_calls w @ [create_request q] \<and>
     (status (fst r) = 200 \<longrightarrow> map_of (body (fst r)) ''question'' = Some (PyStr q)) \<and>
     (\<forall>x. (\<not> truthy x) = (x = None \<or> x = Some []))"
proof -
  let ?cq = "\<lparr>question = Some q\<rparr>"
  from assms(1) have q: "effective_question (question ?cq) = q"
    by simp
  have calls: "provider_calls (snd (app p (POST_ask_coffee ?cq) w)) =
      provider_calls w @ [create_request q]"
    unfolding app_post snd_conv ask_coffee_question_calls q
    by (simp add: provider_calls_logger)
  have ok: "map_of (body (fst (app p (POST_ask_coffee ?cq) w))) ''question'' = Some (PyStr q)"
    if "status (fst (app p (POST_ask_coffee ?cq) w)) = 200"
    using app_post_200 [OF that] q envelope_question by auto
  have fires: "(\<not> truthy x) = (x = None \<or> x = Some [])" for x
    by (cases x) simp_all
  from assms(1) calls ok fires show ?thesis
    by (simp add: Let_def)
qed

theorem whitespace_question_kept_witness:
  "let r = app (\<lambda>_. Inr \<lparr>choices = Some [\<lparr>message = Some \<lparr>content = Some ''Could you ask again?''\<rparr>\<rparr>]\<rparr>)
             (POST_ask_coffee \<lparr>question = Some '' ''\<rparr>) \<lparr>log_lines = [], provider_calls = []\<rparr>
   in status (fst r) = 200 \<and>
      provider_calls (snd r) = [create_request '' ''] \<and>
      map_of (body (fst r)) ''question'' = Some (PyStr '' '')"
proof -
  let ?p = "\<lambda>_::completion_request.
      Inr \<lparr>choices = Some [\<lparr>message = Some \<lparr>content = Some ''Could you ask again?''\<rparr>\<rparr>]\<rparr>
        :: py_exception + chat_completion"
  let ?w = "\<lparr>log_lines = [], provider_calls = []\<rparr>"
  have ok: "status (fst (app ?p (POST_ask_coffee \<lparr>question = Some '' ''\<rparr>) ?w)) = 200"
    by (simp add: app_def ask_coffee_endpoint_def ask_coffee_question_def extract_content_def
        respond_def Let_def)
  show ?thesis
    using whitespace_question_kept [of "'' ''" ?p ?w] ok
    by (simp add: Let_def)
qed

text \<open>
  Claim C10. Every 401 response to \<open>POST /ask-coffee\<close> has one fixed detail text and every
  429 response has another, whatever the request and whatever the provider raised. A 500
  response after the provider raised \<open>e\<close> has \<open>str(e)\<close> in its detail, after one of the two
  prefixes \<open>"OpenAI API error: "\<close> and \<open>"Failed to get coffee advice: "\<close>.
\<close>

theorem auth_and_rate_limit_details_are_constant:
  "let r = fst (app p (POST_ask_coffee cq) w) in
     (status r = 401 \<longrightarrow>
        body r = [(''detail'', PyStr
          ''OpenAI API key not configured or invalid. Please set OPENAI_API_KEY environment variable.'')]) \<and>
     (status r = 429 \<longrightarrow>
        body r = [(''detail'', PyStr ''OpenAI API rate limit exceeded. Please try again later.'')]) \<and>
     (\<forall>e. p (create_request (effective_question (question cq))) = Inl e \<longrightarrow> status r = 500 \<longrightarrow>
        body r = [(''detail'', PyStr (''OpenAI API error: '' @ exc_str e))] \<or>
        body r = [(''detail'', PyStr (''Failed to get coffee advice: '' @ exc_str e))])"
proof -
  let ?w = "logger INFO ''Ask coffee endpoint called'' w"
  let ?r = "fst (app p (POST_ask_coffee cq) w)"
  have fixed: "(status ?r = 401 \<longrightarrow> body ?r = [(''detail'', PyStr auth_detail)]) \<and>
      (status ?r = 429 \<longrightarrow> body ?r = [(''detail'', PyStr rate_limit_detail)])"
    using ask_coffee_question_outcome [of p "question cq" ?w]
  proof
    assume "\<exists>ai. fst (ask_coffee_question p (question cq) ?w) =
              Inr (envelope (effective_question (question cq)) ai)"
    then show ?thesis by (auto simp: app_post respond_def)
  next
    assume "\<exists>e. fst (ask_coffee_question p (question cq) ?w) = Inl (fst (except_clauses e ?w))"
    then obtain e where
      "fst (ask_coffee_question p (question cq) ?w) = Inl (fst (except_clauses e ?w))" ..
    then show ?thesis
      by (simp add: app_post respond_def fst_except_clauses)
  qed
  have embeds: "body ?r = [(''detail'', PyStr (''OpenAI API error: '' @ exc_str e))] \<or>
      body ?r = [(''detail'', PyStr (''Failed to get coffee advice: '' @ exc_str e))]"
    if e: "p (create_request (effective_question (question cq))) = Inl e"
      and s: "status ?r = 500" for e
    using ask_coffee_question_raises [of p "question cq" e ?w ?w] e s
    by (simp add: app_post respond_def fst_except_clauses split: if_splits)
  from fixed embeds show ?thesis
    by (simp add: Let_def auth_detail_def rate_limit_detail_def)
qed

theorem auth_and_rate_limit_details_are_constant_witness:
  "body (fst (app (\<lambda>_. Inl \<lparr>exc_type = AuthenticationError, exc_str = ''Incorrect API key provided: sk-abc''\<rparr>)
       (POST_ask_coffee \<lparr>question = Some ''What is a ristretto?''\<rparr>)
       \<lparr>log_lines = [], provider_calls = []\<rparr>)) =
     [(''detail'', PyStr
        ''OpenAI API key not configured or invalid. Please set OPENAI_API_KEY environment variable.'')] \<and>
   body (fst (app (\<lambda>_. Inl \<lparr>exc_type = RateLimitError, exc_str = ''Rate limit reached for gpt-3.5-turbo''\<rparr>)
       (POST_ask_coffee \<lparr>question = None\<rparr>) \<lparr>log_lines = [], provider_calls = []\<rparr>)) =
     [(''detail'', PyStr ''OpenAI API rate limit exceeded. Please try again later.'')] \<and>
   body (fst (app (\<lambda>_. Inl \<lparr>exc_type = APITimeoutError, exc_str = ''Request timed out.''\<rparr>)
       (POST_ask_coffee \<lparr>question = None\<rparr>) \<lparr>log_lines = [], provider_calls = []\<rparr>)) =
     [(''detail'', PyStr ''OpenAI API error: Request timed out.'')]"
proof -
  let ?w = "\<lparr>log_lines = [], provider_calls = []\<rparr>"
  let ?pa = "\<lambda>_::completion_request.
      Inl \<lparr>exc_type = AuthenticationError, exc_str = ''Incorrect API key provided: sk-abc''\<rparr>
        :: py_exception + chat_completion"
  let ?pr = "\<lambda>_::completion_request.
      Inl \<lparr>exc_type = RateLimitError, exc_str = ''Rate limit reached for gpt-3.5-turbo''\<rparr>
        :: py_exception + chat_completion"
  let ?pt = "\<lambda>_::completion_request.
      Inl \<lparr>exc_type = APITimeoutError, exc_str = ''Request timed out.''\<rparr>
        :: py_exception + chat_completion"
  have sa: "status (fst (app ?pa (POST_ask_coffee \<lparr>question = Some ''What is a ristretto?''\<rparr>) ?w)) = 401"
    by (simp add: app_def ask_coffee_endpoint_def ask_coffee_question_def except_clauses_def
        isinstance_def respond_def Let_def)
  have sr: "status (fst (app ?pr (POST_ask_coffee \<lparr>question = None\<rparr>) ?w)) = 429"
    by (simp add: app_def ask_coffee_endpoint_def ask_coffee_question_def except_clauses_def
        isinstance_def respond_def Let_def)
  have st: "status (fst (app ?pt (POST_ask_coffee \<lparr>question = None\<rparr>) ?w)) = 500"
    by (simp add: app_def ask_coffee_endpoint_def ask_coffee_question_def except_clauses_def
        isinstance_def respond_def Let_def)
  have a: "body (fst (app ?pa (POST_ask_coffee \<lparr>question = Some ''What is a ristretto?''\<rparr>) ?w)) =
     [(''detail'', PyStr
        ''OpenAI API key not configured or invalid. Please set OPENAI_API_KEY environment variable.'')]"
    using auth_and_rate_limit_details_are_constant
      [of ?pa "\<lparr>question = Some ''What is a ristretto?''\<rparr>" ?w] sa
    by (simp add: Let_def)
  have b: "body (fst (app ?pr (POST_ask_coffee \<lparr>question = None\<rparr>) ?w)) =
     [(''detail'', PyStr ''OpenAI API rate limit exceeded. Please try again later.'')]"
    using auth_and_rate_limit_details_are_constant [of ?pr "\<lparr>question = None\<rparr>" ?w] sr
    by (simp add: Let_def)
  have c: "body (fst (app ?pt (POST_ask_coffee \<lparr>question = None\<rparr>) ?w)) =
     [(''detail'', PyStr ''OpenAI API error: Request timed out.'')] \<or>
     body (fst (app ?pt (POST_ask_coffee \<lparr>question = None\<rparr>) ?w)) =
     [(''detail'', PyStr ''Failed to get coffee advice: Request timed out.'')]"
    using auth_and_rate_limit_details_are_constant [of ?pt "\<lparr>question = None\<rparr>" ?w] st
    by (simp add: Let_def)
  have "body (fst (app ?pt (POST_ask_coffee \<lparr>question = None\<rparr>) ?w)) \<noteq>
     [(''detail'', PyStr ''Failed to get coffee advice: Request timed out.'')]"
    by (simp add: app_def ask_coffee_endpoint_def ask_coffee_question_def except_clauses_def
        isinstance_def respond_def Let_def)
  with c have c': "body (fst (app ?pt (POST_ask_coffee \<lparr>question = None\<rparr>) ?w)) =
     [(''detail'', PyStr ''OpenAI API error: Request timed out.'')]"
    by blast
  from a b c' show ?thesis by blast
qed

end
